theory Spec2Isabelle
  imports Main
begin

section \<open>Kind-tagged quantities (units/quantity_kind.h)\<close>

text \<open>
  The header defines the class template \<^verbatim>\<open>quantity_kind<K, U, Rep>\<close>, a wrapper around one
  \<^verbatim>\<open>quantity<K::dimension, U, Rep>\<close>, and the operators on it. Everything the header decides
  is decided while the program is built: which overload takes a call, and which type the
  result has. The embedding therefore lets every value carry its type (a quantity carries
  its dimension, unit and representation; a kind-quantity carries its kind and the
  embedded quantity), and every operation returns an option: \<open>None\<close> stands for a call that
  no overload takes or whose result type cannot be formed (the build rejects it),
  \<open>Some x\<close> for a call that is accepted and yields \<open>x\<close>.
\<close>

subsection \<open>Values and their types\<close>

text \<open>
  A value of \<^verbatim>\<open>quantity<D, U, Rep>\<close>: the three descriptors the header reads off a quantity
  type (\<^verbatim>\<open>Q::dimension\<close>, \<^verbatim>\<open>Q::unit\<close>, \<^verbatim>\<open>Q::rep\<close>) and the stored number.
\<close>

record ('d, 'u, 'r, 'n) quantity =
  q_dimension :: 'd
  q_unit :: 'u
  q_rep :: 'r
  q_count :: 'n

text \<open>
  A value of \<^verbatim>\<open>quantity_kind<K, U, Rep>\<close>: the kind \<^verbatim>\<open>kind_type = K\<close> and the one private member
  \<^verbatim>\<open>quantity_type q_\<close> (called \<open>q_member\<close> here, a name may not end with an underscore).
  \<^verbatim>\<open>U\<close> and \<^verbatim>\<open>Rep\<close> are the unit and the representation of the member.
\<close>

record ('k, 'd, 'u, 'r, 'n) quantity_kind =
  kind_type :: 'k
  q_member :: "('d, 'u, 'r, 'n) quantity"

text \<open>
  The right-hand side of \<^verbatim>\<open>operator%=\<close>, whose template parameter \<^verbatim>\<open>Rep2\<close> is unconstrained:
  a bare value, a plain quantity or a kind-quantity.
\<close>

datatype ('s, 'q, 'qk) operand = Bare 's | Plain 'q | Kinded 'qk

subsection \<open>The declarations the header includes\<close>

text \<open>
  \<^verbatim>\<open>units/kind.h\<close>, \<^verbatim>\<open>units/quantity.h\<close> and the concepts they bring are not part of the
  sources at hand. Each declaration of theirs that the header uses is a field of the record
  below, so that every theorem holds for whatever these headers declare.

  \<^descr>[Kinds.] \<open>base_kind K\<close> is \<^verbatim>\<open>K::base_kind\<close> and \<open>kind_dimension K\<close> is \<^verbatim>\<open>K::dimension\<close>.
  \<open>downcast_kind K D\<close> is the alias template \<^verbatim>\<open>downcast_kind<K, D>\<close>. The header uses it
  as the name of a kind wherever it needs one (line 48) and has no branch for a
  hierarchy that names none, so it is a total function here: for a base kind and a
  dimension without a kind of their own it gives whatever kind the hierarchy keeps for
  them.

  \<^descr>[Concepts.] \<open>QuantityValue v\<close>, \<open>safe_convertible_to v Rep\<close>
  (\<^verbatim>\<open>safe_convertible_to_<rep>\<close> of the value's type), \<open>UnitOf U D\<close>, and
  \<open>QuantityKindEquivalentTo T2 T1\<close> for \<^verbatim>\<open>QuantityKindEquivalentTo<T1> T2\<close>.

  \<^descr>[Dimensions.] \<^verbatim>\<open>dim_one\<close>, and the inverse, product and quotient of dimensions that the
  claims speak of.

  \<^descr>[Quantities.] Every operation of \<^verbatim>\<open>quantity\<close> returns \<open>None\<close> when \<^verbatim>\<open>quantity\<close> has
  no such operation for the operands (the \<^verbatim>\<open>requires\<close> clause of the header then fails), or
  when its result is not a quantity where the header asks for one
  (\<^verbatim>\<open>{ qk.common() * v } -> Quantity\<close>). The increments return the new state of the
  quantity; the postfix ones return the value of the expression first. The three
  operations that change the dimension (a bare value over a quantity, the product and
  the quotient of two quantities) give the unit, the representation and the number of
  their result; its dimension is fixed below.
\<close>

record ('k, 'd, 'u, 'r, 'n, 's) library =
  base_kind :: "'k \<Rightarrow> 'k"
  kind_dimension :: "'k \<Rightarrow> 'd"
  downcast_kind :: "'k \<Rightarrow> 'd \<Rightarrow> 'k"
  QuantityValue :: "'s \<Rightarrow> bool"
  safe_convertible_to :: "'s \<Rightarrow> 'r \<Rightarrow> bool"
  UnitOf :: "'u \<Rightarrow> 'd \<Rightarrow> bool"
  QuantityKindEquivalentTo :: "('k \<times> 'u \<times> 'r) \<Rightarrow> ('k \<times> 'u \<times> 'r) \<Rightarrow> bool"
  dim_one :: 'd
  dim_invert :: "'d \<Rightarrow> 'd"
  dimension_multiply :: "'d \<Rightarrow> 'd \<Rightarrow> 'd"
  dimension_divide :: "'d \<Rightarrow> 'd \<Rightarrow> 'd"
  quantity_from_value :: "('d \<times> 'u \<times> 'r) \<Rightarrow> 's \<Rightarrow> ('d, 'u, 'r, 'n) quantity option"
  quantity_from_quantity ::
    "('d \<times> 'u \<times> 'r) \<Rightarrow> ('d, 'u, 'r, 'n) quantity \<Rightarrow> ('d, 'u, 'r, 'n) quantity option"
  quantity_convert ::
    "('d \<times> 'u \<times> 'r) \<Rightarrow> ('d, 'u, 'r, 'n) quantity \<Rightarrow> ('d, 'u, 'r, 'n) quantity option"
  quantity_zero :: "('d \<times> 'u \<times> 'r) \<Rightarrow> ('d, 'u, 'r, 'n) quantity option"
  quantity_one :: "('d \<times> 'u \<times> 'r) \<Rightarrow> ('d, 'u, 'r, 'n) quantity option"
  quantity_pre_inc :: "('d, 'u, 'r, 'n) quantity \<Rightarrow> ('d, 'u, 'r, 'n) quantity option"
  quantity_post_inc ::
    "('d, 'u, 'r, 'n) quantity \<Rightarrow> (('d, 'u, 'r, 'n) quantity \<times> ('d, 'u, 'r, 'n) quantity) option"
  quantity_pre_dec :: "('d, 'u, 'r, 'n) quantity \<Rightarrow> ('d, 'u, 'r, 'n) quantity option"
  quantity_post_dec ::
    "('d, 'u, 'r, 'n) quantity \<Rightarrow> (('d, 'u, 'r, 'n) quantity \<times> ('d, 'u, 'r, 'n) quantity) option"
  quantity_mod_assign ::
    "('d, 'u, 'r, 'n) quantity
      \<Rightarrow> ('s, ('d, 'u, 'r, 'n) quantity, ('k, 'd, 'u, 'r, 'n) quantity_kind) operand
      \<Rightarrow> ('d, 'u, 'r, 'n) quantity option"
  quantity_times_value :: "('d, 'u, 'r, 'n) quantity \<Rightarrow> 's \<Rightarrow> ('d, 'u, 'r, 'n) quantity option"
  value_times_quantity :: "'s \<Rightarrow> ('d, 'u, 'r, 'n) quantity \<Rightarrow> ('d, 'u, 'r, 'n) quantity option"
  quantity_over_value :: "('d, 'u, 'r, 'n) quantity \<Rightarrow> 's \<Rightarrow> ('d, 'u, 'r, 'n) quantity option"
  value_over_quantity :: "'s \<Rightarrow> ('d, 'u, 'r, 'n) quantity \<Rightarrow> ('u \<times> 'r \<times> 'n) option"
  quantity_plus ::
    "('d, 'u, 'r, 'n) quantity \<Rightarrow> ('d, 'u, 'r, 'n) quantity \<Rightarrow> ('d, 'u, 'r, 'n) quantity option"
  quantity_minus ::
    "('d, 'u, 'r, 'n) quantity \<Rightarrow> ('d, 'u, 'r, 'n) quantity \<Rightarrow> ('d, 'u, 'r, 'n) quantity option"
  quantity_times ::
    "('d, 'u, 'r, 'n) quantity \<Rightarrow> ('d, 'u, 'r, 'n) quantity \<Rightarrow> ('u \<times> 'r \<times> 'n) option"
  quantity_over ::
    "('d, 'u, 'r, 'n) quantity \<Rightarrow> ('d, 'u, 'r, 'n) quantity \<Rightarrow> ('u \<times> 'r \<times> 'n) option"
  quantity_modulo ::
    "('d, 'u, 'r, 'n) quantity \<Rightarrow> ('d, 'u, 'r, 'n) quantity \<Rightarrow> ('d, 'u, 'r, 'n) quantity option"
  quantity_equal :: "('d, 'u, 'r, 'n) quantity \<Rightarrow> ('d, 'u, 'r, 'n) quantity \<Rightarrow> bool option"

subsection \<open>Types of values\<close>

text \<open>The type \<^verbatim>\<open>quantity<D, U, Rep>\<close> of a quantity, as the triple of its descriptors.\<close>

definition type_of_quantity :: "('d, 'u, 'r, 'n) quantity \<Rightarrow> 'd \<times> 'u \<times> 'r" where
  "type_of_quantity q = (q_dimension q, q_unit q, q_rep q)"

text \<open>The type \<^verbatim>\<open>quantity_kind<K, U, Rep>\<close> of a kind-quantity, as the triple of its arguments.\<close>

definition type_of_kind :: "('k, 'd, 'u, 'r, 'n) quantity_kind \<Rightarrow> 'k \<times> 'u \<times> 'r" where
  "type_of_kind qk = (kind_type qk, q_unit (q_member qk), q_rep (q_member qk))"

text \<open>
  Line 70: \<^verbatim>\<open>using quantity_type = quantity<typename K::dimension, U, Rep>\<close>.
\<close>

definition quantity_type ::
  "('k, 'd, 'u, 'r, 'n, 's) library \<Rightarrow> 'k \<times> 'u \<times> 'r \<Rightarrow> 'd \<times> 'u \<times> 'r" where
  "quantity_type L T = (case T of (K, U, Rep) \<Rightarrow> (kind_dimension L K, U, Rep))"

text \<open>
  Line 66: the type \<^verbatim>\<open>quantity_kind<K, U, Rep>\<close> can be formed only for
  \<^verbatim>\<open>UnitOf<typename K::dimension> U\<close>.
\<close>

definition type_formed :: "('k, 'd, 'u, 'r, 'n, 's) library \<Rightarrow> 'k \<times> 'u \<times> 'r \<Rightarrow> bool" where
  "type_formed L T = (case T of (K, U, Rep) \<Rightarrow> UnitOf L U (kind_dimension L K))"

text \<open>
  What the C++ type system guarantees of every value of a formed type
  \<^verbatim>\<open>quantity_kind<K, U, Rep>\<close>: the member has the type \<^verbatim>\<open>quantity_type\<close>, whose dimension is
  \<^verbatim>\<open>K::dimension\<close>. The embedding stores the dimension with the member, so the guarantee
  is a predicate on values, assumed of the kind-quantities a theorem starts from.
\<close>

definition well_formed ::
  "('k, 'd, 'u, 'r, 'n, 's) library \<Rightarrow> ('k, 'd, 'u, 'r, 'n) quantity_kind \<Rightarrow> bool" where
  "well_formed L qk =
     (q_dimension (q_member qk) = kind_dimension L (kind_type qk) \<and> type_formed L (type_of_kind qk))"

subsection \<open>The operations of quantity that change the dimension\<close>

text \<open>
  Modelled from the spec: \<^verbatim>\<open>operator/(const Value&, const quantity&)\<close> of
  \<^verbatim>\<open>units/quantity.h\<close>, which is missing. Section 4.3: "scalar \<open>\<div>\<close> kind-quantity \<open>\<rightarrow>\<close>
  dimension inverts". The library says whether the operation exists and gives the unit,
  the representation and the number of the result.
\<close>

definition inverse_quantity ::
  "('k, 'd, 'u, 'r, 'n, 's) library \<Rightarrow> 's \<Rightarrow> ('d, 'u, 'r, 'n) quantity
    \<Rightarrow> ('d, 'u, 'r, 'n) quantity option" where
  "inverse_quantity L v q =
     (case value_over_quantity L v q of
        None \<Rightarrow> None
      | Some (U, Rep, n) \<Rightarrow>
          Some \<lparr>q_dimension = dim_invert L (q_dimension q), q_unit = U, q_rep = Rep, q_count = n\<rparr>)"

text \<open>
  Modelled from the spec: \<^verbatim>\<open>operator*\<close> of two quantities, of the missing
  \<^verbatim>\<open>units/quantity.h\<close>. Section 4.3: the "dimension changes per the multiplication/division
  of the two dimensions".
\<close>

definition product_quantity ::
  "('k, 'd, 'u, 'r, 'n, 's) library \<Rightarrow> ('d, 'u, 'r, 'n) quantity \<Rightarrow> ('d, 'u, 'r, 'n) quantity
    \<Rightarrow> ('d, 'u, 'r, 'n) quantity option" where
  "product_quantity L a b =
     (case quantity_times L a b of
        None \<Rightarrow> None
      | Some (U, Rep, n) \<Rightarrow>
          Some \<lparr>q_dimension = dimension_multiply L (q_dimension a) (q_dimension b),
                q_unit = U, q_rep = Rep, q_count = n\<rparr>)"

text \<open>
  Modelled from the spec: \<^verbatim>\<open>operator/\<close> of two quantities, of the missing
  \<^verbatim>\<open>units/quantity.h\<close>. Section 4.3, as for the product.
\<close>

definition quotient_quantity ::
  "('k, 'd, 'u, 'r, 'n, 's) library \<Rightarrow> ('d, 'u, 'r, 'n) quantity \<Rightarrow> ('d, 'u, 'r, 'n) quantity
    \<Rightarrow> ('d, 'u, 'r, 'n) quantity option" where
  "quotient_quantity L a b =
     (case quantity_over L a b of
        None \<Rightarrow> None
      | Some (U, Rep, n) \<Rightarrow>
          Some \<lparr>q_dimension = dimension_divide L (q_dimension a) (q_dimension b),
                q_unit = U, q_rep = Rep, q_count = n\<rparr>)"

subsection \<open>Construction and extraction (lines 83 to 98)\<close>

text \<open>
  The member initialiser \<^verbatim>\<open>q_{q}\<close> and \<^verbatim>\<open>q_(v)\<close>: an argument that already has the type
  \<^verbatim>\<open>quantity_type\<close> is copied; any other quantity goes through the constructors of
  \<^verbatim>\<open>quantity\<close>.
\<close>

definition init_from_quantity ::
  "('k, 'd, 'u, 'r, 'n, 's) library \<Rightarrow> 'd \<times> 'u \<times> 'r \<Rightarrow> ('d, 'u, 'r, 'n) quantity
    \<Rightarrow> ('d, 'u, 'r, 'n) quantity option" where
  "init_from_quantity L QT q =
     (if type_of_quantity q = QT then Some q else quantity_from_quantity L QT q)"

text \<open>
  The same for an implicit conversion (\<^verbatim>\<open>std::is_convertible_v\<close>, line 92).
\<close>

definition convert_to_quantity ::
  "('k, 'd, 'u, 'r, 'n, 's) library \<Rightarrow> 'd \<times> 'u \<times> 'r \<Rightarrow> ('d, 'u, 'r, 'n) quantity
    \<Rightarrow> ('d, 'u, 'r, 'n) quantity option" where
  "convert_to_quantity L QT q =
     (if type_of_quantity q = QT then Some q else quantity_convert L QT q)"

text \<open>
  Lines 83 to 85, the explicit constructor from a bare value:
  \<^verbatim>\<open>template<safe_convertible_to_<rep> Value>
    requires is_same_v<dimension, dim_one> && std::is_constructible_v<quantity_type, Value>
  constexpr explicit quantity_kind(const Value& v) : q_(v) {}\<close>
  The first argument is the type \<^verbatim>\<open>quantity_kind<K, U, Rep>\<close> that is constructed.
\<close>

definition quantity_kind_from_value ::
  "('k, 'd, 'u, 'r, 'n, 's) library \<Rightarrow> 'k \<times> 'u \<times> 'r \<Rightarrow> 's
    \<Rightarrow> ('k, 'd, 'u, 'r, 'n) quantity_kind option" where
  "quantity_kind_from_value L T v =
     (case T of (K, U, Rep) \<Rightarrow>
        if safe_convertible_to L v Rep \<and> kind_dimension L K = dim_one L then
          (case quantity_from_value L (quantity_type L T) v of
             None \<Rightarrow> None
           | Some q \<Rightarrow> Some \<lparr>kind_type = K, q_member = q\<rparr>)
        else None)"

text \<open>
  Lines 87 to 89, the explicit constructor from a quantity:
  \<^verbatim>\<open>template<typename Q>
    requires (Quantity<Q> || QuantityLike<Q>) && std::is_constructible_v<quantity_type, Q>
  constexpr explicit quantity_kind(const Q& q) : q_{q} {}\<close>
  The argument is a quantity here (foreign quantity-like values are not modelled).
\<close>

definition quantity_kind_from_quantity ::
  "('k, 'd, 'u, 'r, 'n, 's) library \<Rightarrow> 'k \<times> 'u \<times> 'r \<Rightarrow> ('d, 'u, 'r, 'n) quantity
    \<Rightarrow> ('k, 'd, 'u, 'r, 'n) quantity_kind option" where
  "quantity_kind_from_quantity L T q =
     (case init_from_quantity L (quantity_type L T) q of
        None \<Rightarrow> None
      | Some q' \<Rightarrow> Some \<lparr>kind_type = fst T, q_member = q'\<rparr>)"

text \<open>Line 98: \<^verbatim>\<open>constexpr quantity_type common() const noexcept { return q_; }\<close>\<close>

definition common :: "('k, 'd, 'u, 'r, 'n) quantity_kind \<Rightarrow> ('d, 'u, 'r, 'n) quantity" where
  "common qk = q_member qk"

text \<open>
  Lines 91 to 93, the implicit constructor from an equivalent kind-quantity:
  \<^verbatim>\<open>template<QuantityKindEquivalentTo<quantity_kind> QK2>
    requires std::is_convertible_v<typename QK2::quantity_type, quantity_type>
  constexpr explicit(false) quantity_kind(const QK2& qk) : q_{qk.common()} {}\<close>
\<close>

definition quantity_kind_from_equivalent ::
  "('k, 'd, 'u, 'r, 'n, 's) library \<Rightarrow> 'k \<times> 'u \<times> 'r \<Rightarrow> ('k, 'd, 'u, 'r, 'n) quantity_kind
    \<Rightarrow> ('k, 'd, 'u, 'r, 'n) quantity_kind option" where
  "quantity_kind_from_equivalent L T qk =
     (if QuantityKindEquivalentTo L (type_of_kind qk) T then
        (case convert_to_quantity L (quantity_type L T) (common qk) of
           None \<Rightarrow> None
         | Some q' \<Rightarrow> Some \<lparr>kind_type = fst T, q_member = q'\<rparr>)
      else None)"

subsection \<open>The helpers of namespace detail (lines 36 to 52)\<close>

text \<open>
  \<^verbatim>\<open>make_quantity_kind_fn<K>\<close>: forms \<^verbatim>\<open>quantity_kind<K, typename Q::unit, typename Q::rep>\<close>
  and constructs it from \<^verbatim>\<open>q\<close> with the constructor of line 89.
\<close>

definition make_quantity_kind_fn ::
  "('k, 'd, 'u, 'r, 'n, 's) library \<Rightarrow> 'k \<Rightarrow> ('d, 'u, 'r, 'n) quantity
    \<Rightarrow> ('k, 'd, 'u, 'r, 'n) quantity_kind option" where
  "make_quantity_kind_fn L K q =
     (if type_formed L (K, q_unit q, q_rep q)
      then quantity_kind_from_quantity L (K, q_unit q, q_rep q) q
      else None)"

text \<open>\<^verbatim>\<open>make_quantity_kind<QK> = make_quantity_kind_fn<typename QK::kind_type>\<close>\<close>

definition make_quantity_kind ::
  "('k, 'd, 'u, 'r, 'n, 's) library \<Rightarrow> ('k, 'd, 'u, 'r, 'n) quantity_kind
    \<Rightarrow> ('d, 'u, 'r, 'n) quantity \<Rightarrow> ('k, 'd, 'u, 'r, 'n) quantity_kind option" where
  "make_quantity_kind L QK q = make_quantity_kind_fn L (kind_type QK) q"

text \<open>
  \<^verbatim>\<open>downcasted_kind_fn<K>\<close>: \<^verbatim>\<open>make_quantity_kind_fn<downcast_kind<K, typename
  Q::dimension>>(std::move(q))\<close>. The kind that \<^verbatim>\<open>downcast_kind\<close> names is used as it is;
  the only checks are those of \<^verbatim>\<open>make_quantity_kind_fn\<close>.
\<close>

definition downcasted_kind_fn ::
  "('k, 'd, 'u, 'r, 'n, 's) library \<Rightarrow> 'k \<Rightarrow> ('d, 'u, 'r, 'n) quantity
    \<Rightarrow> ('k, 'd, 'u, 'r, 'n) quantity_kind option" where
  "downcasted_kind_fn L K q = make_quantity_kind_fn L (downcast_kind L K (q_dimension q)) q"

text \<open>\<^verbatim>\<open>downcasted_kind<QK> = downcasted_kind_fn<typename QK::kind_type::base_kind>\<close>\<close>

definition downcasted_kind ::
  "('k, 'd, 'u, 'r, 'n, 's) library \<Rightarrow> ('k, 'd, 'u, 'r, 'n) quantity_kind
    \<Rightarrow> ('d, 'u, 'r, 'n) quantity \<Rightarrow> ('k, 'd, 'u, 'r, 'n) quantity_kind option" where
  "downcasted_kind L QK q = downcasted_kind_fn L (base_kind L (kind_type QK)) q"

subsection \<open>Arithmetic with a bare value (lines 209 to 235)\<close>

text \<open>
  \<^verbatim>\<open>operator*(const quantity_kind& qk, const Value& v)\<close>, lines 209 to 214:
  \<^verbatim>\<open>make_quantity_kind<quantity_kind>(qk.common() * v)\<close>.
\<close>

definition qk_times_value ::
  "('k, 'd, 'u, 'r, 'n, 's) library \<Rightarrow> ('k, 'd, 'u, 'r, 'n) quantity_kind \<Rightarrow> 's
    \<Rightarrow> ('k, 'd, 'u, 'r, 'n) quantity_kind option" where
  "qk_times_value L qk v =
     (if QuantityValue L v then
        (case quantity_times_value L (common qk) v of
           None \<Rightarrow> None
         | Some r \<Rightarrow> make_quantity_kind L qk r)
      else None)"

text \<open>
  \<^verbatim>\<open>operator*(const Value& v, const quantity_kind& qk)\<close>, lines 216 to 221:
  \<^verbatim>\<open>make_quantity_kind<quantity_kind>(v * qk.common())\<close>.
\<close>

definition value_times_qk ::
  "('k, 'd, 'u, 'r, 'n, 's) library \<Rightarrow> 's \<Rightarrow> ('k, 'd, 'u, 'r, 'n) quantity_kind
    \<Rightarrow> ('k, 'd, 'u, 'r, 'n) quantity_kind option" where
  "value_times_qk L v qk =
     (if QuantityValue L v then
        (case value_times_quantity L v (common qk) of
           None \<Rightarrow> None
         | Some r \<Rightarrow> make_quantity_kind L qk r)
      else None)"

text \<open>
  \<^verbatim>\<open>operator/(const quantity_kind& qk, const Value& v)\<close>, lines 223 to 228:
  \<^verbatim>\<open>make_quantity_kind<quantity_kind>(qk.common() / v)\<close>.
\<close>

definition qk_over_value ::
  "('k, 'd, 'u, 'r, 'n, 's) library \<Rightarrow> ('k, 'd, 'u, 'r, 'n) quantity_kind \<Rightarrow> 's
    \<Rightarrow> ('k, 'd, 'u, 'r, 'n) quantity_kind option" where
  "qk_over_value L qk v =
     (if QuantityValue L v then
        (case quantity_over_value L (common qk) v of
           None \<Rightarrow> None
         | Some r \<Rightarrow> make_quantity_kind L qk r)
      else None)"

text \<open>
  \<^verbatim>\<open>operator/(const Value& v, const quantity_kind& qk)\<close>, lines 230 to 235:
  \<^verbatim>\<open>detail::downcasted_kind<quantity_kind>(v / qk.common())\<close>.
\<close>

definition value_over_qk ::
  "('k, 'd, 'u, 'r, 'n, 's) library \<Rightarrow> 's \<Rightarrow> ('k, 'd, 'u, 'r, 'n) quantity_kind
    \<Rightarrow> ('k, 'd, 'u, 'r, 'n) quantity_kind option" where
  "value_over_qk L v qk =
     (if QuantityValue L v then
        (case inverse_quantity L v (common qk) of
           None \<Rightarrow> None
         | Some r \<Rightarrow> downcasted_kind L qk r)
      else None)"

subsection \<open>Static factories (lines 100 to 110)\<close>



subsection \<open>Increment and decrement (lines 136 to 160)\<close>

text \<open>
  The receiver is passed in and its new state is passed out. The result is the pair of
  the value of the expression and the receiver after the call; for the prefix forms the
  value of the expression is what the returned reference \<^verbatim>\<open>*this\<close> refers to.

  \<^verbatim>\<open>constexpr quantity_kind& operator++() requires requires(quantity_type q) { ++q; }
  { ++q_; return *this; }\<close>
\<close>

definition pre_increment ::
  "('k, 'd, 'u, 'r, 'n, 's) library \<Rightarrow> ('k, 'd, 'u, 'r, 'n) quantity_kind
    \<Rightarrow> (('k, 'd, 'u, 'r, 'n) quantity_kind \<times> ('k, 'd, 'u, 'r, 'n) quantity_kind) option" where
  "pre_increment L this =
     (case quantity_pre_inc L (q_member this) of
        None \<Rightarrow> None
      | Some q' \<Rightarrow> (let this' = this\<lparr>q_member := q'\<rparr> in Some (this', this')))"

text \<open>
  \<^verbatim>\<open>constexpr quantity_kind operator++(int) requires requires(quantity_type q) { q++; }
  { return quantity_kind(q_++); }\<close>
\<close>

definition post_increment ::
  "('k, 'd, 'u, 'r, 'n, 's) library \<Rightarrow> ('k, 'd, 'u, 'r, 'n) quantity_kind
    \<Rightarrow> (('k, 'd, 'u, 'r, 'n) quantity_kind \<times> ('k, 'd, 'u, 'r, 'n) quantity_kind) option" where
  "post_increment L this =
     (case quantity_post_inc L (q_member this) of
        None \<Rightarrow> None
      | Some (v, q') \<Rightarrow>
          (case quantity_kind_from_quantity L (type_of_kind this) v of
             None \<Rightarrow> None
           | Some r \<Rightarrow> Some (r, this\<lparr>q_member := q'\<rparr>)))"

text \<open>\<^verbatim>\<open>operator--()\<close>: \<^verbatim>\<open>--q_; return *this;\<close>\<close>

definition pre_decrement ::
  "('k, 'd, 'u, 'r, 'n, 's) library \<Rightarrow> ('k, 'd, 'u, 'r, 'n) quantity_kind
    \<Rightarrow> (('k, 'd, 'u, 'r, 'n) quantity_kind \<times> ('k, 'd, 'u, 'r, 'n) quantity_kind) option" where
  "pre_decrement L this =
     (case quantity_pre_dec L (q_member this) of
        None \<Rightarrow> None
      | Some q' \<Rightarrow> (let this' = this\<lparr>q_member := q'\<rparr> in Some (this', this')))"

text \<open>\<^verbatim>\<open>operator--(int)\<close>: \<^verbatim>\<open>return quantity_kind(q_--);\<close>\<close>

definition post_decrement ::
  "('k, 'd, 'u, 'r, 'n, 's) library \<Rightarrow> ('k, 'd, 'u, 'r, 'n) quantity_kind
    \<Rightarrow> (('k, 'd, 'u, 'r, 'n) quantity_kind \<times> ('k, 'd, 'u, 'r, 'n) quantity_kind) option" where
  "post_decrement L this =
     (case quantity_post_dec L (q_member this) of
        None \<Rightarrow> None
      | Some (v, q') \<Rightarrow>
          (case quantity_kind_from_quantity L (type_of_kind this) v of
             None \<Rightarrow> None
           | Some r \<Rightarrow> Some (r, this\<lparr>q_member := q'\<rparr>)))"

subsection \<open>Compound modulo (lines 192 to 205)\<close>

text \<open>
  The two overloads return \<^verbatim>\<open>*this\<close>; the model returns the receiver after the call.

  \<^verbatim>\<open>template<typename Rep2>
  constexpr quantity_kind& operator%=(const Rep2& rhs)
    requires (!Quantity<Rep2>) && requires(quantity_type q, const Rep2 r) { q %= r; }
  { q_ %= rhs; return *this; }\<close>
\<close>

definition mod_assign_Rep2 ::
  "('k, 'd, 'u, 'r, 'n, 's) library \<Rightarrow> ('k, 'd, 'u, 'r, 'n) quantity_kind
    \<Rightarrow> ('s, ('d, 'u, 'r, 'n) quantity, ('k, 'd, 'u, 'r, 'n) quantity_kind) operand
    \<Rightarrow> ('k, 'd, 'u, 'r, 'n) quantity_kind option" where
  "mod_assign_Rep2 L this rhs =
     (case rhs of
        Plain p \<Rightarrow> None
      | _ \<Rightarrow>
          (case quantity_mod_assign L (q_member this) rhs of
             None \<Rightarrow> None
           | Some q' \<Rightarrow> Some (this\<lparr>q_member := q'\<rparr>)))"

text \<open>
  \<^verbatim>\<open>constexpr quantity_kind& operator%=(const quantity_kind& qk)
    requires requires(quantity_type q) { q %= qk.common(); }
  { q_ %= qk.common(); return *this; }\<close>
  The argument has the type of the receiver.
\<close>

definition mod_assign_quantity_kind ::
  "('k, 'd, 'u, 'r, 'n, 's) library \<Rightarrow> ('k, 'd, 'u, 'r, 'n) quantity_kind
    \<Rightarrow> ('k, 'd, 'u, 'r, 'n) quantity_kind \<Rightarrow> ('k, 'd, 'u, 'r, 'n) quantity_kind option" where
  "mod_assign_quantity_kind L this qk =
     (case quantity_mod_assign L (q_member this) (Plain (common qk)) of
        None \<Rightarrow> None
      | Some q' \<Rightarrow> Some (this\<lparr>q_member := q'\<rparr>))"

text \<open>
  The expression \<^verbatim>\<open>q %= rhs\<close>, with the overload the language selects.
  \<^item> A bare value or a plain quantity reaches the template only: the constructors that
    would turn either into a \<^verbatim>\<open>quantity_kind\<close> (lines 85 and 89) are explicit.
  \<^item> A kind-quantity of the receiver's type matches both overloads exactly, and the
    non-template one wins where its constraint holds.
  \<^item> A kind-quantity of another type matches the template exactly; where the template's
    constraint fails it is converted by the implicit constructor of line 93.
\<close>

definition mod_assign ::
  "('k, 'd, 'u, 'r, 'n, 's) library \<Rightarrow> ('k, 'd, 'u, 'r, 'n) quantity_kind
    \<Rightarrow> ('s, ('d, 'u, 'r, 'n) quantity, ('k, 'd, 'u, 'r, 'n) quantity_kind) operand
    \<Rightarrow> ('k, 'd, 'u, 'r, 'n) quantity_kind option" where
  "mod_assign L this rhs =
     (case rhs of
        Bare v \<Rightarrow> mod_assign_Rep2 L this rhs
      | Plain p \<Rightarrow> mod_assign_Rep2 L this rhs
      | Kinded qk \<Rightarrow>
          if type_of_kind qk = type_of_kind this then
            (case mod_assign_quantity_kind L this qk of
               Some r \<Rightarrow> Some r
             | None \<Rightarrow> mod_assign_Rep2 L this rhs)
          else
            (case mod_assign_Rep2 L this rhs of
               Some r \<Rightarrow> Some r
             | None \<Rightarrow>
                 (case quantity_kind_from_equivalent L (type_of_kind this) qk of
                    None \<Rightarrow> None
                  | Some qk' \<Rightarrow> mod_assign_quantity_kind L this qk')))"

subsection \<open>Two kind-quantities (lines 256 to 268 and 305 to 310)\<close>

text \<open>
  \<^verbatim>\<open>template<QuantityKind QK1, QuantityKindEquivalentTo<QK1> QK2>
  constexpr QuantityKind auto operator+(const QK1& lhs, const QK2& rhs)
    requires requires { lhs.common() + rhs.common(); }
  { return detail::make_quantity_kind<QK1>(lhs.common() + rhs.common()); }\<close>
\<close>

definition qk_plus ::
  "('k, 'd, 'u, 'r, 'n, 's) library \<Rightarrow> ('k, 'd, 'u, 'r, 'n) quantity_kind
    \<Rightarrow> ('k, 'd, 'u, 'r, 'n) quantity_kind \<Rightarrow> ('k, 'd, 'u, 'r, 'n) quantity_kind option" where
  "qk_plus L lhs rhs =
     (if QuantityKindEquivalentTo L (type_of_kind rhs) (type_of_kind lhs) then
        (case quantity_plus L (common lhs) (common rhs) of
           None \<Rightarrow> None
         | Some r \<Rightarrow> make_quantity_kind L lhs r)
      else None)"

text \<open>\<^verbatim>\<open>operator-\<close>: \<^verbatim>\<open>detail::make_quantity_kind<QK1>(lhs.common() - rhs.common())\<close>\<close>

definition qk_minus ::
  "('k, 'd, 'u, 'r, 'n, 's) library \<Rightarrow> ('k, 'd, 'u, 'r, 'n) quantity_kind
    \<Rightarrow> ('k, 'd, 'u, 'r, 'n) quantity_kind \<Rightarrow> ('k, 'd, 'u, 'r, 'n) quantity_kind option" where
  "qk_minus L lhs rhs =
     (if QuantityKindEquivalentTo L (type_of_kind rhs) (type_of_kind lhs) then
        (case quantity_minus L (common lhs) (common rhs) of
           None \<Rightarrow> None
         | Some r \<Rightarrow> make_quantity_kind L lhs r)
      else None)"

text \<open>\<^verbatim>\<open>operator%\<close>: \<^verbatim>\<open>detail::make_quantity_kind<QK1>(lhs.common() % rhs.common())\<close>\<close>

definition qk_modulo ::
  "('k, 'd, 'u, 'r, 'n, 's) library \<Rightarrow> ('k, 'd, 'u, 'r, 'n) quantity_kind
    \<Rightarrow> ('k, 'd, 'u, 'r, 'n) quantity_kind \<Rightarrow> ('k, 'd, 'u, 'r, 'n) quantity_kind option" where
  "qk_modulo L lhs rhs =
     (if QuantityKindEquivalentTo L (type_of_kind rhs) (type_of_kind lhs) then
        (case quantity_modulo L (common lhs) (common rhs) of
           None \<Rightarrow> None
         | Some r \<Rightarrow> make_quantity_kind L lhs r)
      else None)"

subsection \<open>A kind-quantity and a plain quantity (lines 270 to 296)\<close>

text \<open>
  \<^verbatim>\<open>template<QuantityKind QK, Quantity Q>
  constexpr QuantityKind auto operator*(const QK& lhs, const Q& rhs)
    requires requires { lhs.common() * rhs; }
  { return detail::downcasted_kind<QK>(lhs.common() * rhs); }\<close>
\<close>

definition qk_times_quantity ::
  "('k, 'd, 'u, 'r, 'n, 's) library \<Rightarrow> ('k, 'd, 'u, 'r, 'n) quantity_kind
    \<Rightarrow> ('d, 'u, 'r, 'n) quantity \<Rightarrow> ('k, 'd, 'u, 'r, 'n) quantity_kind option" where
  "qk_times_quantity L lhs rhs =
     (case product_quantity L (common lhs) rhs of
        None \<Rightarrow> None
      | Some r \<Rightarrow> downcasted_kind L lhs r)"

text \<open>\<^verbatim>\<open>operator*(const Q& lhs, const QK& rhs)\<close>: \<^verbatim>\<open>detail::downcasted_kind<QK>(lhs * rhs.common())\<close>\<close>

definition quantity_times_qk ::
  "('k, 'd, 'u, 'r, 'n, 's) library \<Rightarrow> ('d, 'u, 'r, 'n) quantity
    \<Rightarrow> ('k, 'd, 'u, 'r, 'n) quantity_kind \<Rightarrow> ('k, 'd, 'u, 'r, 'n) quantity_kind option" where
  "quantity_times_qk L lhs rhs =
     (case product_quantity L lhs (common rhs) of
        None \<Rightarrow> None
      | Some r \<Rightarrow> downcasted_kind L rhs r)"

text \<open>\<^verbatim>\<open>operator/(const QK& lhs, const Q& rhs)\<close>: \<^verbatim>\<open>detail::downcasted_kind<QK>(lhs.common() / rhs)\<close>\<close>

definition qk_over_quantity ::
  "('k, 'd, 'u, 'r, 'n, 's) library \<Rightarrow> ('k, 'd, 'u, 'r, 'n) quantity_kind
    \<Rightarrow> ('d, 'u, 'r, 'n) quantity \<Rightarrow> ('k, 'd, 'u, 'r, 'n) quantity_kind option" where
  "qk_over_quantity L lhs rhs =
     (case quotient_quantity L (common lhs) rhs of
        None \<Rightarrow> None
      | Some r \<Rightarrow> downcasted_kind L lhs r)"

text \<open>\<^verbatim>\<open>operator/(const Q& lhs, const QK& rhs)\<close>: \<^verbatim>\<open>detail::downcasted_kind<QK>(lhs / rhs.common())\<close>\<close>

definition quantity_over_qk ::
  "('k, 'd, 'u, 'r, 'n, 's) library \<Rightarrow> ('d, 'u, 'r, 'n) quantity
    \<Rightarrow> ('k, 'd, 'u, 'r, 'n) quantity_kind \<Rightarrow> ('k, 'd, 'u, 'r, 'n) quantity_kind option" where
  "quantity_over_qk L lhs rhs =
     (case quotient_quantity L lhs (common rhs) of
        None \<Rightarrow> None
      | Some r \<Rightarrow> downcasted_kind L rhs r)"

subsection \<open>Equality (lines 250 and 319 to 324)\<close>

text \<open>
  Line 250, the defaulted \<^verbatim>\<open>operator==(const quantity_kind&, const quantity_kind&)\<close> of two
  values of one type: it compares the members with the \<^verbatim>\<open>operator==\<close> of \<^verbatim>\<open>quantity\<close>.
\<close>

definition equal_defaulted ::
  "('k, 'd, 'u, 'r, 'n, 's) library \<Rightarrow> ('k, 'd, 'u, 'r, 'n) quantity_kind
    \<Rightarrow> ('k, 'd, 'u, 'r, 'n) quantity_kind \<Rightarrow> bool option" where
  "equal_defaulted L lhs rhs = quantity_equal L (q_member lhs) (q_member rhs)"

text \<open>
  Lines 319 to 324:
  \<^verbatim>\<open>template<QuantityKind QK1, QuantityKindEquivalentTo<QK1> QK2>
    requires std::equality_comparable_with<typename QK1::quantity_type, typename QK2::quantity_type>
  constexpr bool operator==(const QK1& lhs, const QK2& rhs)
  { return lhs.common() == rhs.common(); }\<close>
\<close>

definition equal_equivalent ::
  "('k, 'd, 'u, 'r, 'n, 's) library \<Rightarrow> ('k, 'd, 'u, 'r, 'n) quantity_kind
    \<Rightarrow> ('k, 'd, 'u, 'r, 'n) quantity_kind \<Rightarrow> bool option" where
  "equal_equivalent L lhs rhs =
     (if QuantityKindEquivalentTo L (type_of_kind rhs) (type_of_kind lhs)
      then quantity_equal L (common lhs) (common rhs)
      else None)"

text \<open>
  The expression \<^verbatim>\<open>lhs == rhs\<close>: two values of one type reach the defaulted operator (a
  non-template function wins over the template), two values of different types reach the
  template. Candidates with the operands swapped or converted are not modelled: they
  ask for the same equivalence of the two types.
\<close>

definition qk_equal ::
  "('k, 'd, 'u, 'r, 'n, 's) library \<Rightarrow> ('k, 'd, 'u, 'r, 'n) quantity_kind
    \<Rightarrow> ('k, 'd, 'u, 'r, 'n) quantity_kind \<Rightarrow> bool option" where
  "qk_equal L lhs rhs =
     (if type_of_kind lhs = type_of_kind rhs
      then equal_defaulted L lhs rhs
      else equal_equivalent L lhs rhs)"

subsection \<open>The round trip as an expression\<close>

text \<open>
  The expression \<^verbatim>\<open>Kind(q.common()) == q\<close>, where \<^verbatim>\<open>Kind\<close> is the type of \<^verbatim>\<open>q\<close>: the
  constructor of line 89 applied to the extracted quantity, then the comparison.
\<close>

definition round_trip_equals ::
  "('k, 'd, 'u, 'r, 'n, 's) library \<Rightarrow> ('k, 'd, 'u, 'r, 'n) quantity_kind \<Rightarrow> bool option" where
  "round_trip_equals L q =
     (case quantity_kind_from_quantity L (type_of_kind q) (common q) of
        None \<Rightarrow> None
      | Some q' \<Rightarrow> qk_equal L q' q)"

subsection \<open>The identity laws as expressions\<close>



section \<open>A sample library\<close>

text \<open>
  One small library to run the operators on: a single base dimension (a dimension is the
  exponent of length, \<open>0\<close> is \<^verbatim>\<open>dim_one\<close>), the coherent unit of each dimension (a unit is
  the exponent of the metre), two representations, whole numbers, and a few kinds. A bare
  value is a number with the name of its type. Its operations do what the spec says of
  the collaborators: the unit of a product is the product of the units, that of a
  quotient the quotient, that of a bare value over a quantity the inverse unit; scaling,
  sums, differences and remainders keep dimension and unit; two kind-quantity types are
  equivalent when they share the base kind and the dimension; every base kind and
  dimension have a kind, declared or not. The sample is no part of the header; the
  theorems hold for every library, and the sample shows that their hypotheses can be
  met.
\<close>

datatype kind0 = Radius | Curvature | Width | Breadth | Horizontal_Area | Apples | Unnamed kind0 int

datatype rep0 = Int_rep | Double_rep

fun sample_base_kind :: "kind0 \<Rightarrow> kind0" where
  "sample_base_kind Radius = Radius"
| "sample_base_kind Curvature = Radius"
| "sample_base_kind Width = Width"
| "sample_base_kind Breadth = Width"
| "sample_base_kind Horizontal_Area = Width"
| "sample_base_kind Apples = Apples"
| "sample_base_kind (Unnamed B D) = sample_base_kind B"

fun sample_kind_dimension :: "kind0 \<Rightarrow> int" where
  "sample_kind_dimension Radius = 1"
| "sample_kind_dimension Curvature = - 1"
| "sample_kind_dimension Width = 1"
| "sample_kind_dimension Breadth = 1"
| "sample_kind_dimension Horizontal_Area = 2"
| "sample_kind_dimension Apples = 0"
| "sample_kind_dimension (Unnamed B D) = D"

text \<open>
  The kinds declared under each base kind: a curvature is the inverse length under
  \<open>Radius\<close>; a breadth is a length under \<open>Width\<close>, and \<open>Width\<close> itself is the kind the
  hierarchy names for a length under \<open>Width\<close>; nothing is declared for an inverse length
  under \<open>Width\<close>.
\<close>

definition sample_declared :: "kind0 \<Rightarrow> int \<Rightarrow> kind0 option" where
  "sample_declared B D =
     (if B = Radius \<and> D = 1 then Some Radius
      else if B = Radius \<and> D = - 1 then Some Curvature
      else if B = Width \<and> D = 1 then Some Width
      else if B = Width \<and> D = 2 then Some Horizontal_Area
      else if B = Apples \<and> D = 0 then Some Apples
      else None)"

text \<open>
  The kind the hierarchy names for a base kind and a dimension: the declared one, and
  where none is declared the kind \<open>Unnamed B D\<close>, which has no name of its own, the base
  kind \<open>B\<close> and the dimension \<open>D\<close>.
\<close>

definition sample_downcast_kind :: "kind0 \<Rightarrow> int \<Rightarrow> kind0" where
  "sample_downcast_kind B D =
     (case sample_declared B D of Some K \<Rightarrow> K | None \<Rightarrow> Unnamed B D)"

definition common_rep :: "rep0 \<Rightarrow> rep0 \<Rightarrow> rep0" where
  "common_rep a b = (if a = Int_rep \<and> b = Int_rep then Int_rep else Double_rep)"

text \<open>A value converts safely unless a \<^verbatim>\<open>double\<close> is to become an \<^verbatim>\<open>int\<close>.\<close>

definition sample_safe :: "rep0 \<Rightarrow> rep0 \<Rightarrow> bool" where
  "sample_safe from to = (from = Int_rep \<or> to = Double_rep)"

definition sample_equivalent :: "kind0 \<times> int \<times> rep0 \<Rightarrow> kind0 \<times> int \<times> rep0 \<Rightarrow> bool" where
  "sample_equivalent T2 T1 =
     (sample_base_kind (fst T2) = sample_base_kind (fst T1)
      \<and> sample_kind_dimension (fst T2) = sample_kind_dimension (fst T1))"

definition sample_from_value ::
  "int \<times> int \<times> rep0 \<Rightarrow> rep0 \<times> int \<Rightarrow> (int, int, rep0, int) quantity option" where
  "sample_from_value QT v =
     (case QT of (D, U, Rep) \<Rightarrow>
        Some \<lparr>q_dimension = D, q_unit = U, q_rep = Rep, q_count = snd v\<rparr>)"

definition sample_from_quantity ::
  "int \<times> int \<times> rep0 \<Rightarrow> (int, int, rep0, int) quantity \<Rightarrow> (int, int, rep0, int) quantity option" where
  "sample_from_quantity QT q =
     (case QT of (D, U, Rep) \<Rightarrow>
        if q_dimension q = D \<and> q_unit q = U then Some (q\<lparr>q_rep := Rep\<rparr>) else None)"

definition sample_convert ::
  "int \<times> int \<times> rep0 \<Rightarrow> (int, int, rep0, int) quantity \<Rightarrow> (int, int, rep0, int) quantity option" where
  "sample_convert QT q =
     (case QT of (D, U, Rep) \<Rightarrow>
        if q_dimension q = D \<and> q_unit q = U \<and> sample_safe (q_rep q) Rep
        then Some (q\<lparr>q_rep := Rep\<rparr>) else None)"

definition sample_constant :: "int \<Rightarrow> int \<times> int \<times> rep0 \<Rightarrow> (int, int, rep0, int) quantity option" where
  "sample_constant n QT =
     (case QT of (D, U, Rep) \<Rightarrow>
        Some \<lparr>q_dimension = D, q_unit = U, q_rep = Rep, q_count = n\<rparr>)"

text \<open>Sums, differences and remainders of two quantities of one dimension and unit.\<close>

definition sample_additive ::
  "(int \<Rightarrow> int \<Rightarrow> int) \<Rightarrow> (int, int, rep0, int) quantity \<Rightarrow> (int, int, rep0, int) quantity
    \<Rightarrow> (int, int, rep0, int) quantity option" where
  "sample_additive f a b =
     (if q_dimension a = q_dimension b \<and> q_unit a = q_unit b then
        Some \<lparr>q_dimension = q_dimension a, q_unit = q_unit a,
              q_rep = common_rep (q_rep a) (q_rep b), q_count = f (q_count a) (q_count b)\<rparr>
      else None)"

text \<open>The remainder exists for integral representations only.\<close>

definition sample_modulo ::
  "(int, int, rep0, int) quantity \<Rightarrow> (int, int, rep0, int) quantity
    \<Rightarrow> (int, int, rep0, int) quantity option" where
  "sample_modulo a b =
     (if q_rep a = Int_rep \<and> q_rep b = Int_rep then sample_additive (mod) a b else None)"

definition sample_times ::
  "(int, int, rep0, int) quantity \<Rightarrow> (int, int, rep0, int) quantity
    \<Rightarrow> (int \<times> rep0 \<times> int) option" where
  "sample_times a b =
     Some (q_unit a + q_unit b, common_rep (q_rep a) (q_rep b), q_count a * q_count b)"

definition sample_over ::
  "(int, int, rep0, int) quantity \<Rightarrow> (int, int, rep0, int) quantity
    \<Rightarrow> (int \<times> rep0 \<times> int) option" where
  "sample_over a b =
     Some (q_unit a - q_unit b, common_rep (q_rep a) (q_rep b), q_count a div q_count b)"

definition sample_scale ::
  "(int \<Rightarrow> int \<Rightarrow> int) \<Rightarrow> (int, int, rep0, int) quantity \<Rightarrow> rep0 \<times> int
    \<Rightarrow> (int, int, rep0, int) quantity option" where
  "sample_scale f a v =
     Some (a\<lparr>q_rep := common_rep (q_rep a) (fst v), q_count := f (q_count a) (snd v)\<rparr>)"

definition sample_value_over ::
  "rep0 \<times> int \<Rightarrow> (int, int, rep0, int) quantity \<Rightarrow> (int \<times> rep0 \<times> int) option" where
  "sample_value_over v a =
     Some (- q_unit a, common_rep (fst v) (q_rep a), snd v div q_count a)"

definition sample_mod_assign ::
  "(int, int, rep0, int) quantity
    \<Rightarrow> (rep0 \<times> int, (int, int, rep0, int) quantity, (kind0, int, int, rep0, int) quantity_kind) operand
    \<Rightarrow> (int, int, rep0, int) quantity option" where
  "sample_mod_assign a rhs =
     (case rhs of
        Bare v \<Rightarrow>
          if q_rep a = Int_rep \<and> fst v = Int_rep
          then Some (a\<lparr>q_count := q_count a mod snd v\<rparr>) else None
      | Plain b \<Rightarrow>
          if q_rep a = Int_rep \<and> type_of_quantity b = type_of_quantity a
          then Some (a\<lparr>q_count := q_count a mod q_count b\<rparr>) else None
      | Kinded qk \<Rightarrow> None)"

definition sample_equal ::
  "(int, int, rep0, int) quantity \<Rightarrow> (int, int, rep0, int) quantity \<Rightarrow> bool option" where
  "sample_equal a b =
     (if q_dimension a = q_dimension b \<and> q_unit a = q_unit b
      then Some (q_count a = q_count b) else None)"

definition sample_library :: "(kind0, int, int, rep0, int, rep0 \<times> int) library" where
  "sample_library =
     \<lparr>base_kind = sample_base_kind,
      kind_dimension = sample_kind_dimension,
      downcast_kind = sample_downcast_kind,
      QuantityValue = (\<lambda>v. True),
      safe_convertible_to = (\<lambda>v Rep. sample_safe (fst v) Rep),
      UnitOf = (\<lambda>U D. U = D),
      QuantityKindEquivalentTo = sample_equivalent,
      dim_one = 0,
      dim_invert = (\<lambda>D. - D),
      dimension_multiply = (\<lambda>D E. D + E),
      dimension_divide = (\<lambda>D E. D - E),
      quantity_from_value = sample_from_value,
      quantity_from_quantity = sample_from_quantity,
      quantity_convert = sample_convert,
      quantity_zero = sample_constant 0,
      quantity_one = sample_constant 1,
      quantity_pre_inc = (\<lambda>q. Some (q\<lparr>q_count := q_count q + 1\<rparr>)),
      quantity_post_inc = (\<lambda>q. Some (q, q\<lparr>q_count := q_count q + 1\<rparr>)),
      quantity_pre_dec = (\<lambda>q. Some (q\<lparr>q_count := q_count q - 1\<rparr>)),
      quantity_post_dec = (\<lambda>q. Some (q, q\<lparr>q_count := q_count q - 1\<rparr>)),
      quantity_mod_assign = sample_mod_assign,
      quantity_times_value = sample_scale (*),
      value_times_quantity = (\<lambda>v q. sample_scale (*) q v),
      quantity_over_value = sample_scale (div),
      value_over_quantity = sample_value_over,
      quantity_plus = sample_additive (+),
      quantity_minus = sample_additive (-),
      quantity_times = sample_times,
      quantity_over = sample_over,
      quantity_modulo = sample_modulo,
      quantity_equal = sample_equal\<rparr>"

text \<open>
  A kind-quantity of the sample: \<open>sample K n\<close> is \<open>n\<close> coherent units of kind \<open>K\<close>, stored as
  an \<^verbatim>\<open>int\<close>; \<open>metres D n\<close> is the plain quantity of \<open>n\<close> coherent units of dimension \<open>D\<close>.
\<close>

definition metres :: "int \<Rightarrow> int \<Rightarrow> (int, int, rep0, int) quantity" where
  "metres D n = \<lparr>q_dimension = D, q_unit = D, q_rep = Int_rep, q_count = n\<rparr>"

definition sample :: "kind0 \<Rightarrow> int \<Rightarrow> (kind0, int, int, rep0, int) quantity_kind" where
  "sample K n = \<lparr>kind_type = K, q_member = metres (sample_kind_dimension K) n\<rparr>"

section \<open>Properties\<close>

subsection \<open>Helper lemmas\<close>

text \<open>
  A quantity whose dimension is the dimension of the kind is copied into the new
  kind-quantity as it is.
\<close>

lemma make_quantity_kind_fn_copy:
  assumes "q_dimension r = kind_dimension L K" and "UnitOf L (q_unit r) (kind_dimension L K)"
  shows "make_quantity_kind_fn L K r = Some \<lparr>kind_type = K, q_member = r\<rparr>"
  using assms
  by (simp add: make_quantity_kind_fn_def type_formed_def quantity_kind_from_quantity_def
      init_from_quantity_def quantity_type_def type_of_quantity_def)

lemma downcasted_kind_copy:
  assumes "kind_dimension L (downcast_kind L (base_kind L (kind_type q)) (q_dimension r))
             = q_dimension r"
    and "UnitOf L (q_unit r) (q_dimension r)"
  shows "downcasted_kind L q r
           = Some \<lparr>kind_type = downcast_kind L (base_kind L (kind_type q)) (q_dimension r),
                   q_member = r\<rparr>"
  using assms
  by (simp add: downcasted_kind_def downcasted_kind_fn_def make_quantity_kind_fn_copy)

text \<open>Whatever \<^verbatim>\<open>downcasted_kind\<close> returns is tagged with the kind that \<open>downcast_kind\<close> names.\<close>

lemma downcasted_kind_kind:
  assumes "downcasted_kind L q r = Some x"
  shows "kind_type x = downcast_kind L (base_kind L (kind_type q)) (q_dimension r)"
  using assms
  by (simp add: downcasted_kind_def downcasted_kind_fn_def make_quantity_kind_fn_def
      quantity_kind_from_quantity_def split: if_splits option.splits)
    auto

lemma from_own_quantity:
  assumes "well_formed L q"
  shows "quantity_kind_from_quantity L (type_of_kind q) (q_member q) = Some q"
  using assms
  by (simp add: well_formed_def quantity_kind_from_quantity_def init_from_quantity_def
      quantity_type_def type_of_kind_def type_of_quantity_def)

lemmas sample_defs =
  sample_library_def sample_def metres_def sample_downcast_kind_def sample_declared_def
  common_rep_def
  sample_safe_def sample_equivalent_def sample_from_value_def sample_from_quantity_def
  sample_convert_def sample_constant_def sample_additive_def sample_modulo_def
  sample_times_def sample_over_def sample_scale_def sample_value_over_def
  sample_mod_assign_def sample_equal_def

lemma well_formed_sample: "well_formed sample_library (sample K n)"
  by (simp add: well_formed_def type_formed_def type_of_kind_def sample_defs)

subsection \<open>A bare value divided by a kind-quantity\<close>

text \<open>
  Claim C1, as stated, lets \<^verbatim>\<open>s / q\<close> fall back to a plain quantity where the hierarchy
  declares no kind for the inverse dimension. The operator returns
  \<^verbatim>\<open>QuantityKind auto\<close> and builds its result with
  \<^verbatim>\<open>make_quantity_kind_fn<downcast_kind<...>>\<close>: the result is a kind-quantity in every case.
  In the sample no kind is declared for an inverse length under \<open>Width\<close>; for a width \<open>q\<close>
  of 5 metres, \<^verbatim>\<open>10 / q\<close> is a kind-quantity of 2 per metre, under the kind that the
  hierarchy keeps for \<open>Width\<close> and the inverse length, a kind without a name of its own.
\<close>

theorem inverse_without_kind_counterexample:
  "sample_declared (base_kind sample_library Width)
      (dim_invert sample_library (kind_dimension sample_library Width)) = None
   \<and> value_over_qk sample_library (Int_rep, 10) (sample Width 5)
       = Some \<lparr>kind_type = Unnamed Width (- 1), q_member = metres (- 1) 2\<rparr>"
  by (simp add: value_over_qk_def inverse_quantity_def downcasted_kind_def downcasted_kind_fn_def
      make_quantity_kind_fn_def type_formed_def quantity_kind_from_quantity_def
      init_from_quantity_def quantity_type_def type_of_quantity_def common_def sample_defs)

text \<open>
  Claim C1, amended: let \<open>q\<close> be a kind-quantity of kind \<open>K\<close> over dimension \<open>D\<close> with base
  kind \<open>B\<close>, and \<open>s\<close> a bare value such that \<^verbatim>\<open>quantity\<close> supports \<^verbatim>\<open>s / q.common()\<close>, with the
  unit \<open>U\<close>, the representation \<open>Rep\<close> and the number \<open>n\<close> as its result. Whatever \<^verbatim>\<open>s / q\<close>
  returns is tagged with the kind \<open>downcast_kind B (1/D)\<close>. Where that kind is a kind over
  \<open>1/D\<close> and \<open>U\<close> is a unit of \<open>1/D\<close> (what the type
  \<^verbatim>\<open>quantity_kind<downcast_kind<B, 1/D>, U, Rep>\<close> asks for), \<^verbatim>\<open>s / q\<close> is the kind-quantity
  of dimension \<open>1/D\<close> and kind \<open>downcast_kind B (1/D)\<close> that wraps the quantity
  \<^verbatim>\<open>s / q.common()\<close>, also when the hierarchy declares no kind of its own for \<open>1/D\<close>: the
  result never is a plain quantity.
\<close>

theorem inverse_downcast:
  assumes wf: "well_formed L q"
    and K: "kind_type q = K" "kind_dimension L K = D" "base_kind L K = B"
    and v: "QuantityValue L s"
    and r: "value_over_quantity L s (common q) = Some (U, Rep, n)"
  shows "(value_over_qk L s q = Some x \<longrightarrow> kind_type x = downcast_kind L B (dim_invert L D))
       \<and> (kind_dimension L (downcast_kind L B (dim_invert L D)) = dim_invert L D
           \<and> UnitOf L U (dim_invert L D) \<longrightarrow>
            value_over_qk L s q
              = Some \<lparr>kind_type = downcast_kind L B (dim_invert L D),
                      q_member = \<lparr>q_dimension = dim_invert L D, q_unit = U, q_rep = Rep,
                                  q_count = n\<rparr>\<rparr>)"
proof -
  let ?r = "\<lparr>q_dimension = dim_invert L D, q_unit = U, q_rep = Rep, q_count = n\<rparr>"
  from wf K have d: "q_dimension (common q) = D"
    by (simp add: well_formed_def common_def)
  with r have i: "inverse_quantity L s (common q) = Some ?r"
    by (simp add: inverse_quantity_def)
  with v have o: "value_over_qk L s q = downcasted_kind L q ?r"
    by (simp add: value_over_qk_def)
  have 1: "kind_type x = downcast_kind L B (dim_invert L D)" if "value_over_qk L s q = Some x"
    using that o K downcasted_kind_kind [of L q ?r x] by simp
  have 2: "value_over_qk L s q = Some \<lparr>kind_type = downcast_kind L B (dim_invert L D), q_member = ?r\<rparr>"
    if "kind_dimension L (downcast_kind L B (dim_invert L D)) = dim_invert L D
        \<and> UnitOf L U (dim_invert L D)"
    using that o K downcasted_kind_copy [of L q ?r] by simp
  from 1 2 show ?thesis
    by blast
qed

text \<open>
  In the sample, 10 divided by a radius of 5 metres is a curvature of 2 per metre, and 10
  divided by a width of 5 metres is 2 per metre under the unnamed kind of \<open>Width\<close> and the
  inverse length.
\<close>

theorem inverse_downcast_witness:
  "value_over_qk sample_library (Int_rep, 10) (sample Radius 5) = Some (sample Curvature 2)
   \<and> value_over_qk sample_library (Int_rep, 10) (sample Width 5)
       = Some (sample (Unnamed Width (- 1)) 2)
   \<and> kind_type (sample (Unnamed Width (- 1)) 2)
       = downcast_kind sample_library Width (dim_invert sample_library 1)"
proof -
  have v: "QuantityValue sample_library (Int_rep, 10)"
    by (simp add: sample_defs)
  have r: "value_over_quantity sample_library (Int_rep, 10) (common (sample K 5))
             = Some (- sample_kind_dimension K, Int_rep, 2)" for K
    by (simp add: common_def sample_defs)
  have k: "kind_type (sample K 5) = K" "kind_dimension sample_library K = sample_kind_dimension K"
    "base_kind sample_library K = sample_base_kind K" for K
    by (simp_all add: sample_defs)
  have c: "kind_dimension sample_library (downcast_kind sample_library B (dim_invert sample_library D))
             = dim_invert sample_library D"
    and u: "UnitOf sample_library (- D) (dim_invert sample_library D)" for B D
    by (simp_all add: sample_defs)
  note t = inverse_downcast [OF well_formed_sample k v r]
  have 1: "value_over_qk sample_library (Int_rep, 10) (sample Radius 5)
             = Some \<lparr>kind_type = downcast_kind sample_library (sample_base_kind Radius)
                        (dim_invert sample_library (sample_kind_dimension Radius)),
                     q_member = \<lparr>q_dimension = dim_invert sample_library (sample_kind_dimension Radius),
                        q_unit = - sample_kind_dimension Radius, q_rep = Int_rep, q_count = 2\<rparr>\<rparr>"
    using t [of Radius] c u by blast
  have 2: "value_over_qk sample_library (Int_rep, 10) (sample Width 5)
             = Some \<lparr>kind_type = downcast_kind sample_library (sample_base_kind Width)
                        (dim_invert sample_library (sample_kind_dimension Width)),
                     q_member = \<lparr>q_dimension = dim_invert sample_library (sample_kind_dimension Width),
                        q_unit = - sample_kind_dimension Width, q_rep = Int_rep, q_count = 2\<rparr>\<rparr>"
    using t [of Width] c u by blast
  have 3: "kind_type (sample (Unnamed Width (- 1)) 2)
             = downcast_kind sample_library (sample_base_kind Width)
                 (dim_invert sample_library (sample_kind_dimension Width))"
    if "value_over_qk sample_library (Int_rep, 10) (sample Width 5)
          = Some (sample (Unnamed Width (- 1)) 2)"
    using t [of Width "sample (Unnamed Width (- 1)) 2"] that by blast
  from 1 have a1: "value_over_qk sample_library (Int_rep, 10) (sample Radius 5)
                     = Some (sample Curvature 2)"
    by (simp add: sample_defs)
  from 2 have a2: "value_over_qk sample_library (Int_rep, 10) (sample Width 5)
                     = Some (sample (Unnamed Width (- 1)) 2)"
    by (simp add: sample_defs)
  from 3 [OF a2] have a3: "kind_type (sample (Unnamed Width (- 1)) 2)
             = downcast_kind sample_library Width (dim_invert sample_library 1)"
    by simp
  from a1 a2 a3 show ?thesis
    by blast
qed

subsection \<open>Scaling by a bare value\<close>

text \<open>
  Claim C2: for a kind-quantity \<open>q\<close> and a bare value \<open>s\<close>, whenever the quantity \<open>r\<close> that
  \<^verbatim>\<open>q.common() * s\<close>, \<^verbatim>\<open>s * q.common()\<close> or \<^verbatim>\<open>q.common() / s\<close> yields exists (scaling keeps the
  dimension, so \<open>r\<close> has the dimension of \<open>q\<close>), \<^verbatim>\<open>q * s\<close>, \<^verbatim>\<open>s * q\<close> and \<^verbatim>\<open>q / s\<close> return the
  kind-quantity with the kind of \<open>q\<close> itself, no downcast, whose quantity is \<open>r\<close>.
\<close>

theorem scaling_keeps_kind:
  assumes wf: "well_formed L q" and v: "QuantityValue L s"
    and r: "q_dimension r = q_dimension (common q)" "UnitOf L (q_unit r) (q_dimension r)"
  shows "(quantity_times_value L (common q) s = Some r \<longrightarrow>
            qk_times_value L q s = Some \<lparr>kind_type = kind_type q, q_member = r\<rparr>)
       \<and> (value_times_quantity L s (common q) = Some r \<longrightarrow>
            value_times_qk L s q = Some \<lparr>kind_type = kind_type q, q_member = r\<rparr>)
       \<and> (quantity_over_value L (common q) s = Some r \<longrightarrow>
            qk_over_value L q s = Some \<lparr>kind_type = kind_type q, q_member = r\<rparr>)"
proof -
  from wf r have d: "q_dimension r = kind_dimension L (kind_type q)"
    and u: "UnitOf L (q_unit r) (kind_dimension L (kind_type q))"
    by (simp_all add: well_formed_def common_def)
  have m: "make_quantity_kind L q r = Some \<lparr>kind_type = kind_type q, q_member = r\<rparr>"
    unfolding make_quantity_kind_def by (rule make_quantity_kind_fn_copy [OF d u])
  show ?thesis
    using v m by (simp add: qk_times_value_def value_times_qk_def qk_over_value_def)
qed

text \<open>
  In the sample: a radius of 10 metres times 2, 2 times that radius, and the radius
  divided by 2.
\<close>

theorem scaling_keeps_kind_witness:
  "qk_times_value sample_library (sample Radius 10) (Int_rep, 2) = Some (sample Radius 20)
   \<and> value_times_qk sample_library (Int_rep, 2) (sample Radius 10) = Some (sample Radius 20)
   \<and> qk_over_value sample_library (sample Radius 10) (Int_rep, 2) = Some (sample Radius 5)"
proof -
  have v: "QuantityValue sample_library (Int_rep, 2)"
    by (simp add: sample_defs)
  have a: "quantity_times_value sample_library (common (sample Radius 10)) (Int_rep, 2)
             = Some (metres 1 20)"
    and b: "value_times_quantity sample_library (Int_rep, 2) (common (sample Radius 10))
             = Some (metres 1 20)"
    and c: "quantity_over_value sample_library (common (sample Radius 10)) (Int_rep, 2)
             = Some (metres 1 5)"
    by (simp_all add: common_def sample_defs)
  have d: "q_dimension (metres 1 n) = q_dimension (common (sample Radius 10))"
    and u: "UnitOf sample_library (q_unit (metres 1 n)) (q_dimension (metres 1 n))" for n
    by (simp_all add: common_def sample_defs)
  from scaling_keeps_kind [OF well_formed_sample v d u, of 20] a b
    scaling_keeps_kind [OF well_formed_sample v d u, of 5] c
  show ?thesis
    by (simp add: sample_def)
qed

subsection \<open>A kind-quantity and a plain quantity\<close>

text \<open>
  Claim C3: let \<open>q\<close> be a kind-quantity of kind \<open>K\<close> over dimension \<open>D\<close> with base kind \<open>B\<close>,
  and \<open>p\<close> a plain quantity such that \<^verbatim>\<open>quantity\<close> supports \<^verbatim>\<open>q.common() * p\<close>
  (\<^verbatim>\<open>p * q.common()\<close>, \<^verbatim>\<open>q.common() / p\<close>), with the unit \<open>U\<close>, the representation \<open>Rep\<close> and the
  number \<open>n\<close> as its result. Let \<open>D'\<close> be the product (the quotient) of the two dimensions.
  Where \<open>downcast_kind B D'\<close> is a kind over \<open>D'\<close> and \<open>U\<close> is a unit of \<open>D'\<close> (what the type
  \<^verbatim>\<open>quantity_kind<downcast_kind<B, D'>, U, Rep>\<close> asks for), \<^verbatim>\<open>q * p\<close> (\<^verbatim>\<open>p * q\<close>, \<^verbatim>\<open>q / p\<close>)
  returns the kind-quantity of dimension \<open>D'\<close> that wraps the result on quantities, and its
  kind is the downcast of the kind of \<open>q\<close> onto \<open>D'\<close>: the kind that \<open>downcast_kind\<close> names for
  the base kind of \<open>q\<close> and \<open>D'\<close>. Whatever the three operators return is tagged with that
  kind.
\<close>

theorem quantity_arithmetic_downcasts:
  assumes wf: "well_formed L q"
    and K: "kind_type q = K" "kind_dimension L K = D" "base_kind L K = B"
  shows "(quantity_times L (common q) p = Some (U, Rep, n)
           \<and> kind_dimension L (downcast_kind L B (dimension_multiply L D (q_dimension p)))
               = dimension_multiply L D (q_dimension p)
           \<and> UnitOf L U (dimension_multiply L D (q_dimension p))
           \<longrightarrow> qk_times_quantity L q p
               = Some \<lparr>kind_type = downcast_kind L B (dimension_multiply L D (q_dimension p)),
                       q_member = \<lparr>q_dimension = dimension_multiply L D (q_dimension p),
                                   q_unit = U, q_rep = Rep, q_count = n\<rparr>\<rparr>)
       \<and> (quantity_times L p (common q) = Some (U, Rep, n)
           \<and> kind_dimension L (downcast_kind L B (dimension_multiply L (q_dimension p) D))
               = dimension_multiply L (q_dimension p) D
           \<and> UnitOf L U (dimension_multiply L (q_dimension p) D)
           \<longrightarrow> quantity_times_qk L p q
               = Some \<lparr>kind_type = downcast_kind L B (dimension_multiply L (q_dimension p) D),
                       q_member = \<lparr>q_dimension = dimension_multiply L (q_dimension p) D,
                                   q_unit = U, q_rep = Rep, q_count = n\<rparr>\<rparr>)
       \<and> (quantity_over L (common q) p = Some (U, Rep, n)
           \<and> kind_dimension L (downcast_kind L B (dimension_divide L D (q_dimension p)))
               = dimension_divide L D (q_dimension p)
           \<and> UnitOf L U (dimension_divide L D (q_dimension p))
           \<longrightarrow> qk_over_quantity L q p
               = Some \<lparr>kind_type = downcast_kind L B (dimension_divide L D (q_dimension p)),
                       q_member = \<lparr>q_dimension = dimension_divide L D (q_dimension p),
                                   q_unit = U, q_rep = Rep, q_count = n\<rparr>\<rparr>)
       \<and> (qk_times_quantity L q p = Some x
           \<longrightarrow> kind_type x = downcast_kind L B (dimension_multiply L D (q_dimension p)))
       \<and> (quantity_times_qk L p q = Some x
           \<longrightarrow> kind_type x = downcast_kind L B (dimension_multiply L (q_dimension p) D))
       \<and> (qk_over_quantity L q p = Some x
           \<longrightarrow> kind_type x = downcast_kind L B (dimension_divide L D (q_dimension p)))"
proof -
  from wf K have d: "q_dimension (common q) = D"
    by (simp add: well_formed_def common_def)
  have w: "downcasted_kind L q r = Some \<lparr>kind_type = downcast_kind L B (q_dimension r), q_member = r\<rparr>"
    if "kind_dimension L (downcast_kind L B (q_dimension r)) = q_dimension r"
      and "UnitOf L (q_unit r) (q_dimension r)" for r
    using that K downcasted_kind_copy [of L q r] by simp
  have k: "kind_type x = downcast_kind L B (q_dimension r)"
    if "downcasted_kind L q r = Some x" for r
    using that K downcasted_kind_kind [of L q r x] by simp
  show ?thesis
  proof (intro conjI impI)
    assume "qk_times_quantity L q p = Some x"
    then show "kind_type x = downcast_kind L B (dimension_multiply L D (q_dimension p))"
      using d k by (auto simp add: qk_times_quantity_def product_quantity_def
          split: option.splits)
  next
    assume "quantity_times_qk L p q = Some x"
    then show "kind_type x = downcast_kind L B (dimension_multiply L (q_dimension p) D)"
      using d k by (auto simp add: quantity_times_qk_def product_quantity_def
          split: option.splits)
  next
    assume "qk_over_quantity L q p = Some x"
    then show "kind_type x = downcast_kind L B (dimension_divide L D (q_dimension p))"
      using d k by (auto simp add: qk_over_quantity_def quotient_quantity_def
          split: option.splits)
  qed (simp_all add: qk_times_quantity_def quantity_times_qk_def qk_over_quantity_def
      product_quantity_def quotient_quantity_def d w)
qed

text \<open>
  In the sample: a width of 6 metres times 3 metres, in both orders, is a horizontal area
  of 18 square metres; a horizontal area of 6 square metres over 3 metres is a width of
  2 metres. Where no kind is declared the result is a kind-quantity all the same: a
  radius of 6 metres times 3 metres, and a width of 6 metres over 3 metres.
\<close>

theorem quantity_arithmetic_downcasts_witness:
  "qk_times_quantity sample_library (sample Width 6) (metres 1 3) = Some (sample Horizontal_Area 18)
   \<and> quantity_times_qk sample_library (metres 1 3) (sample Width 6) = Some (sample Horizontal_Area 18)
   \<and> qk_over_quantity sample_library (sample Horizontal_Area 6) (metres 1 3) = Some (sample Width 2)
   \<and> qk_times_quantity sample_library (sample Radius 6) (metres 1 3)
       = Some (sample (Unnamed Radius 2) 18)
   \<and> qk_over_quantity sample_library (sample Width 6) (metres 1 3)
       = Some (sample (Unnamed Width 0) 2)"
proof -
  have k1: "kind_type (sample K m) = K" for K m
    by (simp add: sample_defs)
  have k2: "kind_dimension sample_library K = sample_kind_dimension K"
    and k3: "base_kind sample_library K = sample_base_kind K" for K
    by (simp_all add: sample_defs)
  have c: "kind_dimension sample_library (downcast_kind sample_library B D) = D" for B D
    by (simp add: sample_defs)
  have a: "quantity_times sample_library (common (sample K 6)) (metres 1 3)
             = Some (sample_kind_dimension K + 1, Int_rep, 18)"
    and b: "quantity_times sample_library (metres 1 3) (common (sample K 6))
             = Some (1 + sample_kind_dimension K, Int_rep, 18)"
    and d: "quantity_over sample_library (common (sample K 6)) (metres 1 3)
             = Some (sample_kind_dimension K - 1, Int_rep, 2)" for K
    by (simp_all add: common_def sample_defs)
  have u: "UnitOf sample_library (sample_kind_dimension K + 1)
             (dimension_multiply sample_library (sample_kind_dimension K) (q_dimension (metres 1 3)))"
    "UnitOf sample_library (1 + sample_kind_dimension K)
             (dimension_multiply sample_library (q_dimension (metres 1 3)) (sample_kind_dimension K))"
    "UnitOf sample_library (sample_kind_dimension K - 1)
             (dimension_divide sample_library (sample_kind_dimension K) (q_dimension (metres 1 3)))"
    for K
    by (simp_all add: sample_defs)
  have 1: "qk_times_quantity sample_library (sample K 6) (metres 1 3)
             = Some \<lparr>kind_type = downcast_kind sample_library (sample_base_kind K)
                        (dimension_multiply sample_library (sample_kind_dimension K)
                           (q_dimension (metres 1 3))),
                     q_member = \<lparr>q_dimension = dimension_multiply sample_library
                           (sample_kind_dimension K) (q_dimension (metres 1 3)),
                        q_unit = sample_kind_dimension K + 1, q_rep = Int_rep, q_count = 18\<rparr>\<rparr>"
    for K
    using quantity_arithmetic_downcasts [OF well_formed_sample [of K 6] k1 [of K 6] k2 [of K] k3 [of K], where p = "metres 1 3" and n = 18
        and U = "sample_kind_dimension K + 1" and Rep = Int_rep] a c u(1)
    by blast
  have 2: "quantity_times_qk sample_library (metres 1 3) (sample K 6)
             = Some \<lparr>kind_type = downcast_kind sample_library (sample_base_kind K)
                        (dimension_multiply sample_library (q_dimension (metres 1 3))
                           (sample_kind_dimension K)),
                     q_member = \<lparr>q_dimension = dimension_multiply sample_library
                           (q_dimension (metres 1 3)) (sample_kind_dimension K),
                        q_unit = 1 + sample_kind_dimension K, q_rep = Int_rep, q_count = 18\<rparr>\<rparr>"
    for K
    using quantity_arithmetic_downcasts [OF well_formed_sample [of K 6] k1 [of K 6] k2 [of K] k3 [of K], where p = "metres 1 3" and n = 18
        and U = "1 + sample_kind_dimension K" and Rep = Int_rep] b c u(2)
    by blast
  have 3: "qk_over_quantity sample_library (sample K 6) (metres 1 3)
             = Some \<lparr>kind_type = downcast_kind sample_library (sample_base_kind K)
                        (dimension_divide sample_library (sample_kind_dimension K)
                           (q_dimension (metres 1 3))),
                     q_member = \<lparr>q_dimension = dimension_divide sample_library
                           (sample_kind_dimension K) (q_dimension (metres 1 3)),
                        q_unit = sample_kind_dimension K - 1, q_rep = Int_rep, q_count = 2\<rparr>\<rparr>"
    for K
    using quantity_arithmetic_downcasts [OF well_formed_sample [of K 6] k1 [of K 6] k2 [of K] k3 [of K], where p = "metres 1 3" and n = 2
        and U = "sample_kind_dimension K - 1" and Rep = Int_rep] d c u(3)
    by blast
  from 1 [of Width] 2 [of Width] 3 [of Horizontal_Area] 1 [of Radius] 3 [of Width]
  show ?thesis
    by (simp add: sample_defs)
qed

subsection \<open>Two kind-quantities of equivalent kinds\<close>

text \<open>
  Claim C8: for kind-quantities \<open>lhs\<close> and \<open>rhs\<close> of equivalent kinds, whenever the quantity
  \<open>r\<close> that \<^verbatim>\<open>lhs.common() + rhs.common()\<close> (or \<^verbatim>\<open>-\<close>, or \<^verbatim>\<open>%\<close>) yields exists and has the
  dimension of \<open>lhs\<close>, the operators \<^verbatim>\<open>+\<close>, \<^verbatim>\<open>-\<close> and \<^verbatim>\<open>%\<close> return the kind-quantity tagged
  with the kind of the left operand that wraps \<open>r\<close>.
\<close>

theorem equivalent_kinds_keep_left_kind:
  assumes wf: "well_formed L lhs"
    and e: "QuantityKindEquivalentTo L (type_of_kind rhs) (type_of_kind lhs)"
    and r: "q_dimension r = q_dimension (common lhs)" "UnitOf L (q_unit r) (q_dimension r)"
  shows "(quantity_plus L (common lhs) (common rhs) = Some r \<longrightarrow>
            qk_plus L lhs rhs = Some \<lparr>kind_type = kind_type lhs, q_member = r\<rparr>)
       \<and> (quantity_minus L (common lhs) (common rhs) = Some r \<longrightarrow>
            qk_minus L lhs rhs = Some \<lparr>kind_type = kind_type lhs, q_member = r\<rparr>)
       \<and> (quantity_modulo L (common lhs) (common rhs) = Some r \<longrightarrow>
            qk_modulo L lhs rhs = Some \<lparr>kind_type = kind_type lhs, q_member = r\<rparr>)"
proof -
  from wf r have d: "q_dimension r = kind_dimension L (kind_type lhs)"
    and u: "UnitOf L (q_unit r) (kind_dimension L (kind_type lhs))"
    by (simp_all add: well_formed_def common_def)
  have m: "make_quantity_kind L lhs r = Some \<lparr>kind_type = kind_type lhs, q_member = r\<rparr>"
    unfolding make_quantity_kind_def by (rule make_quantity_kind_fn_copy [OF d u])
  show ?thesis
    using e m by (simp add: qk_plus_def qk_minus_def qk_modulo_def)
qed

text \<open>In the sample: widths of 7 and 4 metres.\<close>

theorem equivalent_kinds_keep_left_kind_witness:
  "qk_plus sample_library (sample Width 7) (sample Width 4) = Some (sample Width 11)
   \<and> qk_minus sample_library (sample Width 7) (sample Width 4) = Some (sample Width 3)
   \<and> qk_modulo sample_library (sample Width 7) (sample Width 4) = Some (sample Width 3)"
proof -
  have e: "QuantityKindEquivalentTo sample_library (type_of_kind (sample Width 4))
             (type_of_kind (sample Width 7))"
    by (simp add: type_of_kind_def sample_defs)
  have a: "quantity_plus sample_library (common (sample Width 7)) (common (sample Width 4))
             = Some (metres 1 11)"
    and b: "quantity_minus sample_library (common (sample Width 7)) (common (sample Width 4))
             = Some (metres 1 3)"
    and c: "quantity_modulo sample_library (common (sample Width 7)) (common (sample Width 4))
             = Some (metres 1 3)"
    by (simp_all add: common_def sample_defs)
  have d: "q_dimension (metres 1 n) = q_dimension (common (sample Width 7))"
    and u: "UnitOf sample_library (q_unit (metres 1 n)) (q_dimension (metres 1 n))" for n
    by (simp_all add: common_def sample_defs)
  from equivalent_kinds_keep_left_kind [OF well_formed_sample e d u, of 11] a
    equivalent_kinds_keep_left_kind [OF well_formed_sample e d u, of 3] b c
  show ?thesis
    by (simp add: sample_def)
qed

subsection \<open>Construction from a bare value\<close>

text \<open>
  Claim C9: the constructor of \<^verbatim>\<open>quantity_kind<K, U, Rep>\<close> from a bare value \<open>v\<close> is
  accepted only if the dimension of \<open>K\<close> is \<^verbatim>\<open>dim_one\<close> and \<open>v\<close> converts safely to \<open>Rep\<close>;
  for any other dimension, or a value that does not convert safely, it is rejected. Where
  both hold and \<^verbatim>\<open>quantity\<close> can be constructed from \<open>v\<close>, the result wraps that quantity.
\<close>

theorem from_value_gating:
  "(quantity_kind_from_value L (K, U, Rep) v \<noteq> None
      \<longrightarrow> kind_dimension L K = dim_one L \<and> safe_convertible_to L v Rep)
   \<and> (kind_dimension L K \<noteq> dim_one L \<or> \<not> safe_convertible_to L v Rep
      \<longrightarrow> quantity_kind_from_value L (K, U, Rep) v = None)
   \<and> (kind_dimension L K = dim_one L \<and> safe_convertible_to L v Rep
      \<and> quantity_from_value L (dim_one L, U, Rep) v = Some x
      \<longrightarrow> quantity_kind_from_value L (K, U, Rep) v = Some \<lparr>kind_type = K, q_member = x\<rparr>)"
  by (simp add: quantity_kind_from_value_def quantity_type_def)

text \<open>
  In the sample: apples (a dimensionless kind) from the \<^verbatim>\<open>int\<close> 3 are accepted; a radius
  from 3 is rejected; apples stored as \<^verbatim>\<open>int\<close> from a \<^verbatim>\<open>double\<close> are rejected.
\<close>

theorem from_value_gating_witness:
  "quantity_kind_from_value sample_library (Apples, 0, Int_rep) (Int_rep, 3) = Some (sample Apples 3)
   \<and> quantity_kind_from_value sample_library (Radius, 1, Int_rep) (Int_rep, 3) = None
   \<and> quantity_kind_from_value sample_library (Apples, 0, Int_rep) (Double_rep, 3) = None"
proof -
  have a: "kind_dimension sample_library Apples = dim_one sample_library"
    and b: "safe_convertible_to sample_library (Int_rep, 3) Int_rep"
    and c: "quantity_from_value sample_library (dim_one sample_library, 0, Int_rep) (Int_rep, 3)
              = Some (metres 0 3)"
    and d: "kind_dimension sample_library Radius \<noteq> dim_one sample_library"
    and e: "\<not> safe_convertible_to sample_library (Double_rep, 3) Int_rep"
    by (simp_all add: sample_defs)
  have 1: "quantity_kind_from_value sample_library (Apples, 0, Int_rep) (Int_rep, 3)
             = Some \<lparr>kind_type = Apples, q_member = metres 0 3\<rparr>"
    using from_value_gating [of sample_library Apples 0 Int_rep "(Int_rep, 3)" "metres 0 3"] a b c
    by blast
  have 2: "quantity_kind_from_value sample_library (Radius, 1, Int_rep) (Int_rep, 3) = None"
    using from_value_gating [of sample_library Radius 1 Int_rep "(Int_rep, 3)"] d
    by blast
  have 3: "quantity_kind_from_value sample_library (Apples, 0, Int_rep) (Double_rep, 3) = None"
    using from_value_gating [of sample_library Apples 0 Int_rep "(Double_rep, 3)"] e
    by blast
  from 1 2 3 show ?thesis
    by (simp add: sample_def)
qed

subsection \<open>Increment and decrement\<close>

text \<open>
  Claim C10: where \<^verbatim>\<open>quantity\<close> has the prefix operator and it leaves the quantity \<open>q'\<close>
  behind, \<^verbatim>\<open>++q\<close> and \<^verbatim>\<open>--q\<close> leave the receiver with \<open>q'\<close> embedded and return a reference
  to that receiver. Where \<^verbatim>\<open>quantity\<close> has the postfix operator with the usual meaning (the
  value of \<^verbatim>\<open>q_++\<close> is the old quantity, and the quantity \<open>q'\<close> is left behind), \<^verbatim>\<open>q++\<close> and
  \<^verbatim>\<open>q--\<close> return the kind-quantity as it was before and leave the receiver with \<open>q'\<close>
  embedded.
\<close>

theorem increments:
  "(quantity_pre_inc L (q_member q) = Some q' \<longrightarrow>
      pre_increment L q = Some (q\<lparr>q_member := q'\<rparr>, q\<lparr>q_member := q'\<rparr>))
   \<and> (quantity_pre_dec L (q_member q) = Some q' \<longrightarrow>
      pre_decrement L q = Some (q\<lparr>q_member := q'\<rparr>, q\<lparr>q_member := q'\<rparr>))
   \<and> (well_formed L q \<and> quantity_post_inc L (q_member q) = Some (q_member q, q') \<longrightarrow>
      post_increment L q = Some (q, q\<lparr>q_member := q'\<rparr>))
   \<and> (well_formed L q \<and> quantity_post_dec L (q_member q) = Some (q_member q, q') \<longrightarrow>
      post_decrement L q = Some (q, q\<lparr>q_member := q'\<rparr>))"
  by (simp add: pre_increment_def pre_decrement_def post_increment_def post_decrement_def
      from_own_quantity Let_def)

text \<open>In the sample: five apples.\<close>

theorem increments_witness:
  "pre_increment sample_library (sample Apples 5) = Some (sample Apples 6, sample Apples 6)
   \<and> pre_decrement sample_library (sample Apples 5) = Some (sample Apples 4, sample Apples 4)
   \<and> post_increment sample_library (sample Apples 5) = Some (sample Apples 5, sample Apples 6)
   \<and> post_decrement sample_library (sample Apples 5) = Some (sample Apples 5, sample Apples 4)"
proof -
  have a: "quantity_pre_inc sample_library (q_member (sample Apples 5)) = Some (metres 0 6)"
    and b: "quantity_pre_dec sample_library (q_member (sample Apples 5)) = Some (metres 0 4)"
    and c: "quantity_post_inc sample_library (q_member (sample Apples 5))
              = Some (q_member (sample Apples 5), metres 0 6)"
    and d: "quantity_post_dec sample_library (q_member (sample Apples 5))
              = Some (q_member (sample Apples 5), metres 0 4)"
    by (simp_all add: sample_defs)
  from increments [of sample_library "sample Apples 5" "metres 0 6"] a c
    increments [of sample_library "sample Apples 5" "metres 0 4"] b d
    well_formed_sample [of Apples 5]
  show ?thesis
    by (simp add: sample_def)
qed

subsection \<open>Compound modulo\<close>




text \<open>Whatever the right-hand side, an accepted \<^verbatim>\<open>%=\<close> keeps the kind of the receiver.\<close>

lemma mod_assign_Rep2_kind:
  "mod_assign_Rep2 L q rhs = Some x \<Longrightarrow> kind_type x = kind_type q"
  by (cases rhs) (simp_all add: mod_assign_Rep2_def split: option.splits, auto)

lemma mod_assign_quantity_kind_kind:
  "mod_assign_quantity_kind L q qk = Some x \<Longrightarrow> kind_type x = kind_type q"
  by (simp add: mod_assign_quantity_kind_def split: option.splits, auto)

lemma mod_assign_kind:
  assumes "mod_assign L q rhs = Some x"
  shows "kind_type x = kind_type q"
proof (cases rhs)
  case (Bare v)
  with assms show ?thesis
    by (simp add: mod_assign_def mod_assign_Rep2_kind)
next
  case (Plain p)
  with assms show ?thesis
    by (simp add: mod_assign_def mod_assign_Rep2_kind)
next
  case (Kinded qk)
  with assms show ?thesis
    by (simp add: mod_assign_def split: if_splits option.splits)
      (simp_all add: mod_assign_Rep2_kind mod_assign_quantity_kind_kind)
qed

text \<open>
  Claim C5: \<^verbatim>\<open>q %= v\<close> with a bare value \<open>v\<close> is accepted where \<^verbatim>\<open>quantity\<close> supports
  \<^verbatim>\<open>q_ %= v\<close>, and \<^verbatim>\<open>q %= other\<close> with an equivalent kind-quantity is accepted where
  \<^verbatim>\<open>quantity\<close> supports \<^verbatim>\<open>%=\<close> with its quantity (\<open>other\<close> of the type of \<open>q\<close>, or of another
  type and converted by the implicit constructor). In each case the receiver keeps its
  kind and its embedded quantity becomes the result \<open>r\<close> of the operation on quantities;
  every accepted \<^verbatim>\<open>%=\<close> keeps the kind. A plain quantity on the right is rejected.
\<close>

theorem compound_modulo_gating:
  "(quantity_mod_assign L (q_member q) (Bare v) = Some r \<longrightarrow>
      mod_assign L q (Bare v) = Some (q\<lparr>q_member := r\<rparr>))
   \<and> (type_of_kind other = type_of_kind q
       \<and> quantity_mod_assign L (q_member q) (Plain (common other)) = Some r \<longrightarrow>
      mod_assign L q (Kinded other) = Some (q\<lparr>q_member := r\<rparr>))
   \<and> (type_of_kind other \<noteq> type_of_kind q
       \<and> quantity_mod_assign L (q_member q) (Kinded other) = None
       \<and> quantity_kind_from_equivalent L (type_of_kind q) other = Some c
       \<and> quantity_mod_assign L (q_member q) (Plain (common c)) = Some r \<longrightarrow>
      mod_assign L q (Kinded other) = Some (q\<lparr>q_member := r\<rparr>))
   \<and> (mod_assign L q rhs = Some x \<longrightarrow> kind_type x = kind_type q)
   \<and> mod_assign L q (Plain p) = None"
proof (intro conjI impI)
  show "kind_type x = kind_type q" if "mod_assign L q rhs = Some x"
    using that by (rule mod_assign_kind)
qed (simp_all add: mod_assign_def mod_assign_quantity_kind_def mod_assign_Rep2_def)

text \<open>
  In the sample: seven apples modulo the \<^verbatim>\<open>int\<close> 4; a width of 7 metres modulo a width of
  4 metres; the same width modulo a breadth of 4 metres (an equivalent kind of another
  type); and the same width modulo the plain quantity of 4 metres, which is rejected.
\<close>

theorem compound_modulo_gating_witness:
  "mod_assign sample_library (sample Apples 7) (Bare (Int_rep, 4)) = Some (sample Apples 3)
   \<and> mod_assign sample_library (sample Width 7) (Kinded (sample Width 4)) = Some (sample Width 3)
   \<and> mod_assign sample_library (sample Width 7) (Kinded (sample Breadth 4)) = Some (sample Width 3)
   \<and> mod_assign sample_library (sample Width 7) (Plain (metres 1 4)) = None"
proof -
  have a: "quantity_mod_assign sample_library (q_member (sample Apples 7)) (Bare (Int_rep, 4))
             = Some (metres 0 3)"
    by (simp add: sample_defs)
  have 1: "mod_assign sample_library (sample Apples 7) (Bare (Int_rep, 4))
             = Some ((sample Apples 7)\<lparr>q_member := metres 0 3\<rparr>)"
    using compound_modulo_gating
      [where L = sample_library and q = "sample Apples 7" and v = "(Int_rep, 4)"
        and r = "metres 0 3"] a
    by blast
  have t: "type_of_kind (sample Width 4) = type_of_kind (sample Width 7)"
    and b: "quantity_mod_assign sample_library (q_member (sample Width 7))
             (Plain (common (sample Width 4))) = Some (metres 1 3)"
    by (simp_all add: common_def type_of_kind_def type_of_quantity_def sample_defs)
  have 2: "mod_assign sample_library (sample Width 7) (Kinded (sample Width 4))
             = Some ((sample Width 7)\<lparr>q_member := metres 1 3\<rparr>)"
    using compound_modulo_gating
      [where L = sample_library and q = "sample Width 7" and other = "sample Width 4"
        and r = "metres 1 3"] t b
    by blast
  have t': "type_of_kind (sample Breadth 4) \<noteq> type_of_kind (sample Width 7)"
    and c: "quantity_mod_assign sample_library (q_member (sample Width 7))
             (Kinded (sample Breadth 4)) = None"
    and d: "quantity_kind_from_equivalent sample_library (type_of_kind (sample Width 7))
             (sample Breadth 4) = Some (sample Width 4)"
    by (simp_all add: quantity_kind_from_equivalent_def convert_to_quantity_def quantity_type_def
        common_def type_of_kind_def type_of_quantity_def sample_defs)
  have 3: "mod_assign sample_library (sample Width 7) (Kinded (sample Breadth 4))
             = Some ((sample Width 7)\<lparr>q_member := metres 1 3\<rparr>)"
    using compound_modulo_gating
      [where L = sample_library and q = "sample Width 7" and other = "sample Breadth 4"
        and r = "metres 1 3" and c = "sample Width 4"] t' c d b
    by blast
  have 4: "mod_assign sample_library (sample Width 7) (Plain (metres 1 4)) = None"
    using compound_modulo_gating [where L = sample_library and q = "sample Width 7"] by blast
  from 1 2 3 4 show ?thesis
    by (simp add: sample_def)
qed

subsection \<open>The round trip through \<open>common\<close>\<close>

text \<open>
  Claim C6: for a kind-quantity \<open>q\<close> of type \<^verbatim>\<open>Kind\<close>, \<^verbatim>\<open>Kind(q.common())\<close> is \<open>q\<close> again: the
  round trip is the identity. The comparison \<^verbatim>\<open>Kind(q.common()) == q\<close> is the defaulted
  \<^verbatim>\<open>operator==\<close>, which hands the two members to the \<^verbatim>\<open>operator==\<close> of \<^verbatim>\<open>quantity\<close>: its
  value is that of \<^verbatim>\<open>q.common() == q.common()\<close>, hence true wherever the equality of
  \<^verbatim>\<open>quantity\<close> holds between a value and itself.
\<close>

theorem common_round_trip:
  assumes wf: "well_formed L q"
  shows "quantity_kind_from_quantity L (type_of_kind q) (common q) = Some q
       \<and> round_trip_equals L q = quantity_equal L (common q) (common q)
       \<and> (quantity_equal L (common q) (common q) = Some True \<longrightarrow>
            round_trip_equals L q = Some True)"
proof -
  have c: "quantity_kind_from_quantity L (type_of_kind q) (common q) = Some q"
    unfolding common_def by (rule from_own_quantity [OF wf])
  have e: "qk_equal L q q = quantity_equal L (common q) (common q)"
    by (simp add: qk_equal_def equal_defaulted_def common_def)
  from c e show ?thesis
    by (simp add: round_trip_equals_def)
qed

text \<open>In the sample: a radius of 5 metres.\<close>

theorem common_round_trip_witness:
  "quantity_kind_from_quantity sample_library (type_of_kind (sample Radius 5))
      (common (sample Radius 5)) = Some (sample Radius 5)
   \<and> round_trip_equals sample_library (sample Radius 5) = Some True"
proof -
  have r: "quantity_equal sample_library (common (sample Radius 5)) (common (sample Radius 5))
             = Some True"
    by (simp add: common_def sample_defs)
  from common_round_trip [OF well_formed_sample, of Radius 5] r
  show ?thesis
    by blast
qed

subsection \<open>The identity laws\<close>




end
